theory Spec2Isabelle
  imports Complex_Main "HOL-Library.Word" "HOL-Library.Log_Nat"
begin

section \<open>Values\<close>

text \<open>
  The server is JavaScript on Node with Mongoose models. A MongoDB ObjectId is twelve
  bytes, here a 96-bit word. A JavaScript number is an IEEE-754 double: the model carries
  the rational number a finite double denotes, and rounds the result of every addition,
  subtraction and multiplication to the nearest double (section on numbers below). The
  three kinds of value that reach the \<open>discountPercent\<close> parameter are a number, an
  ObjectId and \<open>undefined\<close>.
\<close>

type_synonym objid = "96 word"

datatype jsval = Undefined | Num rat | Oid objid

text \<open>
  Every \<open>throw\<close> and every rejected promise of the controllers is a value of this
  type. The constructors are the errors the two controllers can raise, with the data their
  messages carry.
\<close>

datatype js_error =
    NoItemsFound  \<comment> \<open>\<open>Error('Failed to create order. No items found')\<close>\<close>
  | ItemsNotFound  \<comment> \<open>\<open>Error('Items not found')\<close>\<close>
  | InsufficientStock int string  \<comment> \<open>\<open>Error(`Only ${availableQty} units of ${itemName} are left`)\<close>\<close>
  | TypeError string  \<comment> \<open>reading the named property of \<open>undefined\<close>, or calling it\<close>
  | ReferenceError string  \<comment> \<open>reading the named identifier, which has no binding\<close>
  | BSONTypeError  \<comment> \<open>the ObjectId constructor refusing its argument\<close>
  | Unauthorized  \<comment> \<open>\<open>Error('User unathorized to perform this action')\<close>\<close>
  | ResultMissing string  \<comment> \<open>\<open>Error('Result missing total ... amount')\<close>\<close>
  | StoreError  \<comment> \<open>a driver call that fails\<close>
  | DuplicateKey  \<comment> \<open>an insert whose \<open>_id\<close> is already in the collection\<close>
  | Wrapped js_error  \<comment> \<open>\<open>new Error(error)\<close>\<close>
  | InvoiceError  \<comment> \<open>the payments controller failing\<close>

subsection \<open>ObjectId: the constructor and \<open>toString\<close>\<close>

text \<open>
  \<open>new ObjectId(s)\<close> of the bson library, for a string argument: a string of 12
  characters is taken as the twelve bytes, a string of 24 hexadecimal digits is decoded,
  and every other string makes the constructor throw. (\<open>order.js\<close> calls
  \<open>ObjectId(userId)\<close> without \<open>new\<close>, which is the function-style constructor of
  bson up to version 4, the one described here.) \<open>toString\<close> gives the 24 lower-case
  hexadecimal digits.
\<close>

definition hexDigits :: string where
  "hexDigits = ''0123456789abcdef''"

fun toHex :: "nat \<Rightarrow> nat \<Rightarrow> string" where
  "toHex 0 n = []"
| "toHex (Suc k) n = toHex k (n div 16) @ [hexDigits ! (n mod 16)]"

definition hexVal :: "char \<Rightarrow> nat option" where
  "hexVal c = (let n = (of_char c :: nat) in
     if 48 \<le> n \<and> n \<le> 57 then Some (n - 48)
     else if 97 \<le> n \<and> n \<le> 102 then Some (n - 87)
     else if 65 \<le> n \<and> n \<le> 70 then Some (n - 55)
     else None)"

fun fromHex :: "nat \<Rightarrow> string \<Rightarrow> nat option" where
  "fromHex acc [] = Some acc"
| "fromHex acc (c # cs) =
     (case hexVal c of None \<Rightarrow> None | Some d \<Rightarrow> fromHex (16 * acc + d) cs)"

fun fromBytes :: "nat \<Rightarrow> string \<Rightarrow> nat" where
  "fromBytes acc [] = acc"
| "fromBytes acc (c # cs) = fromBytes (256 * acc + of_char c) cs"

definition ObjectId :: "string \<Rightarrow> js_error + objid" where
  "ObjectId s =
     (if length s = 12 then Inr (word_of_nat (fromBytes 0 s))
      else if length s = 24 then
        (case fromHex 0 s of None \<Rightarrow> Inl BSONTypeError | Some n \<Rightarrow> Inr (word_of_nat n))
      else Inl BSONTypeError)"

definition toString :: "objid \<Rightarrow> string" where
  "toString i = toHex 24 (unat i)"

text \<open>
  \<open>id.equals(other)\<close>: false when \<open>other\<close> is \<open>undefined\<close>, and the comparison of
  the twelve bytes otherwise.
\<close>

fun equals :: "objid \<Rightarrow> objid option \<Rightarrow> bool" where
  "equals i None = False"
| "equals i (Some j) = (i = j)"

section \<open>Documents and collections\<close>

text \<open>
  Modelled from the spec: the schemas of Item, Order and DiscountCode
  (\<open>common/models\<close>) and the two enumerations of \<open>common/typedefs\<close> are not among the
  sources. The fields are the ones the controllers read and write, with the types of the
  spec's data model; a DiscountCode also has the \<open>discountAmount\<close> the admin controller
  sums and the order reference the spec describes. A collection keeps what it is given: no
  schema validation or casting is modelled. \<open>createdOn\<close> is left out.
\<close>

record item_doc =
  item_id :: objid
  itemName :: string
  priceInPaise :: int
  availableQty :: int
  purchasedCount :: int

datatype DiscountCodeStatus = ACTIVE | USED | EXPIRED

record code_doc =
  code_id :: objid
  discountPercent :: jsval
  status :: DiscountCodeStatus
  code_discountAmount :: "rat option"
  code_orderId :: "objid option"

datatype OrderStatus = CREATED

text \<open>
  A line of \<open>req.body.itemsList\<close>. The documented shape is \<open>{itemId, itemQty}\<close>;
  \<open>line_id\<close> is the property \<open>_id\<close> of the line, which that shape does not have
  (\<open>None\<close>) and a client may send all the same. Ids in a request are taken to be
  ObjectIds when the controller sees them, and quantities to be integers.
\<close>

record req_item =
  itemId :: objid
  itemQty :: int
  line_id :: "objid option"

record order_doc =
  order_id :: objid
  userId :: objid
  order_status :: OrderStatus
  itemsPurchased :: "req_item list"
  orderValueInPaiseAfterDiscount :: rat
  orderValueInPaiseBeforeDiscount :: rat
  discountAmount :: rat
  discountCode :: "string option"

text \<open>
  The database: the three collections, whether the driver's calls succeed, and the trace
  of the calls made so far, so that reading a collection is visible in the state.
\<close>

datatype access =
    ItemAggregate | ItemFind
  | OrderCountDocuments | OrderSave
  | DiscountCodeSave | DiscountCodeFindOne | DiscountCodeFind

record db =
  online :: bool
  items :: "item_doc list"
  orders :: "order_doc list"
  codes :: "code_doc list"
  trace :: "access list"

definition call :: "access \<Rightarrow> db \<Rightarrow> db" where
  "call a d = d\<lparr>trace := trace d @ [a]\<rparr>"

definition DiscountCode_save :: "code_doc \<Rightarrow> db \<Rightarrow> (js_error + code_doc) \<times> db" where
  "DiscountCode_save doc d =
     (if \<not> online d then (Inl StoreError, call DiscountCodeSave d)
      else if code_id doc \<in> code_id ` set (codes d) then (Inl DuplicateKey, call DiscountCodeSave d)
      else (Inr doc, (call DiscountCodeSave d)\<lparr>codes := codes d @ [doc]\<rparr>))"

definition DiscountCode_findOne :: "objid \<Rightarrow> db \<Rightarrow> (js_error + code_doc option) \<times> db" where
  "DiscountCode_findOne i d =
     (if \<not> online d then (Inl StoreError, call DiscountCodeFindOne d)
      else (Inr (find (\<lambda>c. code_id c = i) (codes d)), call DiscountCodeFindOne d))"

section \<open>The discount code registry (admin-controls.js)\<close>

text \<open>
  A call passes a list of arguments; a parameter without an argument, or with the
  argument \<open>undefined\<close>, takes its default.
\<close>

definition arg :: "jsval list \<Rightarrow> nat \<Rightarrow> jsval" where
  "arg args k = (if k < length args then args ! k else Undefined)"

text \<open>
  \<open>createDiscountCodeHelper = (discountPercent = 10) => ...\<close> has one parameter.
  \<open>newId\<close> is the \<open>_id\<close> Mongoose gives the new document. The promise resolves with
  \<open>newDiscountCode._id.toString()\<close> and rejects with the error of \<open>save\<close>.
\<close>

definition createDiscountCodeHelper ::
  "objid \<Rightarrow> jsval list \<Rightarrow> db \<Rightarrow> (js_error + string) \<times> db" where
  "createDiscountCodeHelper newId args d =
     (let discountPercent = (if arg args 0 = Undefined then Num 10 else arg args 0);
          discountCode = \<lparr>code_id = newId, discountPercent = discountPercent, status = ACTIVE,
                          code_discountAmount = None, code_orderId = None\<rparr>
      in case DiscountCode_save discountCode d of
           (Inl error, d') \<Rightarrow> (Inl error, d')
         | (Inr newDiscountCode, d') \<Rightarrow> (Inr (toString (code_id newDiscountCode)), d'))"

text \<open>
  \<open>validateDiscountCode\<close>: the result \<open>{validCode, discountPercent}\<close>, where
  \<open>discountPercent\<close> is present only for a valid code; \<open>code\<close> is the parameter
  \<open>discountCode\<close>. \<open>new ObjectId(discountCode)\<close> is
  evaluated in the promise's executor, before \<open>findOne\<close> is called and outside its
  \<open>.catch\<close>: when the constructor throws, the promise rejects with that error.
\<close>

datatype validation = Validation (validCode: bool) (validPercent: "jsval option")

definition validateDiscountCode :: "string \<Rightarrow> db \<Rightarrow> (js_error + validation) \<times> db" where
  "validateDiscountCode code d =
     (case ObjectId code of
        Inl error \<Rightarrow> (Inl error, d)
      | Inr i \<Rightarrow>
          (case DiscountCode_findOne i d of
             (Inl error, d') \<Rightarrow> (Inr (Validation False None), d')
           | (Inr None, d') \<Rightarrow> (Inr (Validation False None), d')
           | (Inr (Some found), d') \<Rightarrow>
               if status found \<noteq> ACTIVE then (Inr (Validation False None), d')
               else (Inr (Validation True (Some (discountPercent found))), d')))"

section \<open>Numbers of the order controller\<close>

text \<open>
  The operand \<open>process.env.NTH_ORDER_COUNT\<close> of \<open>%\<close> is a string or \<open>undefined\<close>;
  \<open>%\<close> converts it to a number, which may be \<open>NaN\<close> or infinite.
\<close>

datatype jsnum = NaN | Finite rat | PosInfinity | NegInfinity

text \<open>
  \<open>n % m\<close> for a finite \<open>n\<close>: \<open>NaN\<close> when \<open>m\<close> is \<open>NaN\<close> or zero, \<open>n\<close> when
  \<open>m\<close> is infinite, and otherwise \<open>n - m * q\<close> with \<open>q\<close> the quotient \<open>n / m\<close>
  truncated towards zero.
\<close>

definition jsTrunc :: "rat \<Rightarrow> int" where
  "jsTrunc q = (if q < 0 then \<lceil>q\<rceil> else \<lfloor>q\<rfloor>)"

fun jsRem :: "rat \<Rightarrow> jsnum \<Rightarrow> jsnum" where
  "jsRem n NaN = NaN"
| "jsRem n PosInfinity = Finite n"
| "jsRem n NegInfinity = Finite n"
| "jsRem n (Finite m) = (if m = 0 then NaN else Finite (n - m * of_int (jsTrunc (n / m))))"

text \<open>
  Rounding to a double: a non-zero \<open>x\<close> with \<open>2^e \<le> |x| < 2^(e+1)\<close> becomes the
  nearest multiple of \<open>2^(e-52)\<close>, the one with the even multiplier of two equally
  near (53 significant bits, round to nearest, ties to even). The exponent is not
  bounded: overflow to \<open>Infinity\<close> and subnormal numbers, which amounts in paise do not
  reach, are not modelled. The integers that enter a computation (prices, quantities,
  counts) are taken to be doubles as they are. \<open>tenth\<close> is the literal \<open>0.1\<close>.
\<close>

definition pow2 :: "int \<Rightarrow> rat" where
  "pow2 e = (if 0 \<le> e then 2 ^ nat e else 1 / 2 ^ nat (- e))"

definition roundHalfEven :: "rat \<Rightarrow> int" where
  "roundHalfEven r =
     (let f = \<lfloor>r\<rfloor> in
      if r - of_int f < 1 / 2 then f
      else if 1 / 2 < r - of_int f then f + 1
      else if even f then f else f + 1)"

definition exponent :: "rat \<Rightarrow> int" where
  "exponent x =
     (case quotient_of x of
        (p, q) \<Rightarrow> (let k = bitlen p - bitlen q in if pow2 k \<le> x then k else k - 1))"

definition fl :: "rat \<Rightarrow> rat" where
  "fl x =
     (if x = 0 then 0
      else (let s = exponent \<bar>x\<bar> - 52;
                m = roundHalfEven (\<bar>x\<bar> / pow2 s)
            in sgn x * of_int m * pow2 s))"

definition tenth :: rat where
  "tenth = fl (1 / 10)"

text \<open>
  \<open>x.toFixed(2)\<close>: the decimal with two fraction digits nearest to \<open>x\<close>, the larger
  one of two equally near, the sign treated apart. The result is a string in the source;
  the model keeps the number it denotes.
\<close>

definition toFixed2 :: "rat \<Rightarrow> rat" where
  "toFixed2 x =
     (if x < 0 then - (of_int \<lfloor>(- x) * 100 + 1 / 2\<rfloor> / 100)
      else of_int \<lfloor>x * 100 + 1 / 2\<rfloor> / 100)"

section \<open>Order creation (order.js)\<close>

text \<open>
  What \<open>createNewOrder\<close> takes from outside the function:
  \<^item> \<open>NTH_ORDER_COUNT\<close>: the environment variable, \<open>None\<close> when it is not set;
  \<^item> \<open>StringToNumber\<close>: the language's conversion of a string to a number;
  \<^item> \<open>global_itemQty\<close>: the value of the identifier \<open>itemQty\<close> of line 65. The
    identifier is declared neither in the callback, nor in \<open>createNewOrder\<close>, nor in the
    module, so it is looked up in the global scope; \<open>None\<close> stands for no binding there,
    and then reading it throws a ReferenceError. No source file of the repository
    defines one;
  \<^item> \<open>generateInvoice\<close>: \<open>PaymentsController.generateInvoice\<close>, which is not among the
    sources.
\<close>

record env =
  NTH_ORDER_COUNT :: "string option"
  StringToNumber :: "string \<Rightarrow> jsnum"
  global_itemQty :: "int option"
  generateInvoice :: "objid \<Rightarrow> rat \<Rightarrow> js_error + string"

definition nthOrderCount :: "env \<Rightarrow> jsnum" where
  "nthOrderCount e = (case NTH_ORDER_COUNT e of None \<Rightarrow> NaN | Some s \<Rightarrow> StringToNumber e s)"

record request =
  req_userId :: string
  itemsList :: "req_item list"

text \<open>
  The three \<open>let\<close> variables of \<open>createNewOrder\<close> that its callbacks assign. (The
  suffix keeps them apart from the fields of the Order document of the same names.)
\<close>

record locals =
  orderValueInPaiseBeforeDiscount_var :: rat
  orderValueInPaiseAfterDiscount_var :: rat
  discountAmount_var :: rat

datatype body =
    ErrorBody js_error  \<comment> \<open>\<open>{ error }\<close>\<close>
  | INTERNAL_SERVER_ERROR  \<comment> \<open>\<open>{ error: Results.INTERNAL_SERVER_ERROR }\<close>\<close>
  | OrderCreated objid string rat rat
      \<comment> \<open>\<open>{ orderId, invoiceId, orderValueInPaiseAfterDiscount, discountAmount }\<close>\<close>
  | ItemsBody "(objid \<times> string \<times> int) list"
  | DiscountCodesBody "(objid \<times> jsval \<times> rat option) list"
  | TotalPurchaseAmount rat
  | TotalDiscountAmount rat

text \<open>
  What a route handler ends in: a response with its HTTP status, or an exception or
  rejected promise that nothing catches, after which no response is sent.
\<close>

datatype outcome = Responded nat body | Unhandled js_error

definition Item_aggregate :: "objid list \<Rightarrow> db \<Rightarrow> (js_error + item_doc list) \<times> db" where
  "Item_aggregate ids d =
     (if \<not> online d then (Inl StoreError, call ItemAggregate d)
      else (Inr (filter (\<lambda>i. item_id i \<in> set ids) (items d)), call ItemAggregate d))"

definition Order_countDocuments :: "db \<Rightarrow> (js_error + nat) \<times> db" where
  "Order_countDocuments d =
     (if \<not> online d then (Inl StoreError, call OrderCountDocuments d)
      else (Inr (length (orders d)), call OrderCountDocuments d))"

definition Order_save :: "order_doc \<Rightarrow> db \<Rightarrow> (js_error + order_doc) \<times> db" where
  "Order_save doc d =
     (if \<not> online d then (Inl StoreError, call OrderSave d)
      else if order_id doc \<in> order_id ` set (orders d) then (Inl DuplicateKey, call OrderSave d)
      else (Inr doc, (call OrderSave d)\<lparr>orders := orders d @ [doc]\<rparr>))"

text \<open>
  The body of \<open>itemsList.forEach\<close> (lines 54 to 66) for one line, \<open>acc\<close> being the value of
  \<open>orderValueInPaiseBeforeDiscount\<close>. The row is looked up by \<open>item._id\<close>. With no row,
  \<open>dbItem?.availableQty < item.itemQty\<close> compares \<open>undefined\<close> and is false, and
  \<open>dbItem.priceInPaise\<close> then throws a TypeError. The product and the sum of line 65
  are double operations.
\<close>

definition forEachBody :: "env \<Rightarrow> item_doc list \<Rightarrow> req_item \<Rightarrow> rat \<Rightarrow> js_error + rat" where
  "forEachBody e dbItemsList item acc =
     (case find (\<lambda>dbItem. equals (item_id dbItem) (line_id item)) dbItemsList of
        None \<Rightarrow> Inl (TypeError ''priceInPaise'')
      | Some dbItem \<Rightarrow>
          if availableQty dbItem < itemQty item
          then Inl (InsufficientStock (availableQty dbItem) (itemName dbItem))
          else (case global_itemQty e of
                  None \<Rightarrow> Inl (ReferenceError ''itemQty'')
                | Some q \<Rightarrow> Inr (fl (acc + fl (of_int (priceInPaise dbItem * q))))))"

fun forEach :: "env \<Rightarrow> item_doc list \<Rightarrow> req_item list \<Rightarrow> rat \<Rightarrow> js_error option \<times> rat" where
  "forEach e dbItemsList [] acc = (None, acc)"
| "forEach e dbItemsList (item # rest) acc =
     (case forEachBody e dbItemsList item acc of
        Inl error \<Rightarrow> (Some error, acc)
      | Inr acc' \<Rightarrow> forEach e dbItemsList rest acc')"

text \<open>
  The callbacks of the promise chain, in order. Each returns what its promise settles
  with (\<open>Inl\<close> a rejection), the variables and the database.
\<close>

definition thenPriceItems ::
  "env \<Rightarrow> req_item list \<Rightarrow> item_doc list \<Rightarrow> locals \<Rightarrow> db \<Rightarrow> (js_error + nat) \<times> locals \<times> db" where
  "thenPriceItems e lines dbItemsList v d =
     (if dbItemsList = [] then (Inl ItemsNotFound, v, d)
      else
        (case forEach e dbItemsList lines (orderValueInPaiseBeforeDiscount_var v) of
           (Some error, acc) \<Rightarrow> (Inl error, v\<lparr>orderValueInPaiseBeforeDiscount_var := acc\<rparr>, d)
         | (None, acc) \<Rightarrow>
             (case Order_countDocuments d of
                (r, d') \<Rightarrow> (r, v\<lparr>orderValueInPaiseBeforeDiscount_var := acc\<rparr>, d'))))"

text \<open>
  Lines 71 to 92. \<open>0.1 * orderValueInPaiseBeforeDiscount\<close> is the double product of the
  double \<open>0.1\<close> and the total, and the total after discount is a double difference. The
  helper is called with three arguments, \<open>orderId\<close>, \<open>discountPercent\<close> and
  \<open>discountAmount\<close>, in this order.
\<close>

definition thenDecideDiscount ::
  "env \<Rightarrow> objid \<Rightarrow> objid \<Rightarrow> nat \<Rightarrow> locals \<Rightarrow> db \<Rightarrow> (js_error + string option) \<times> locals \<times> db" where
  "thenDecideDiscount e orderId newCodeId existingOrdersCount v d =
     (let currentOrderCount = existingOrdersCount + 1 in
      if jsRem (of_nat currentOrderCount) (nthOrderCount e) = Finite 0 then
        (let percent = 10;
             v1 = v\<lparr>discountAmount_var := fl (tenth * orderValueInPaiseBeforeDiscount_var v)\<rparr>;
             v2 = v1\<lparr>orderValueInPaiseAfterDiscount_var :=
                       fl (orderValueInPaiseBeforeDiscount_var v1 - discountAmount_var v1)\<rparr>
         in case createDiscountCodeHelper newCodeId
                   [Oid orderId, Num percent, Num (discountAmount_var v2)] d of
              (Inl error, d') \<Rightarrow> (Inl error, v2, d')
            | (Inr code, d') \<Rightarrow> (Inr (Some code), v2, d'))
      else
        (Inr None,
         v\<lparr>orderValueInPaiseAfterDiscount_var := orderValueInPaiseBeforeDiscount_var v\<rparr>, d))"

text \<open>Lines 93 to 117: both totals go through \<open>toFixed(2)\<close>, then the Order is saved.\<close>

definition thenSaveOrder ::
  "request \<Rightarrow> objid \<Rightarrow> string option \<Rightarrow> locals \<Rightarrow> db \<Rightarrow> (js_error + order_doc) \<times> locals \<times> db" where
  "thenSaveOrder req orderId code v d =
     (let v1 = v\<lparr>orderValueInPaiseAfterDiscount_var :=
                   toFixed2 (orderValueInPaiseAfterDiscount_var v)\<rparr>;
          v2 = v1\<lparr>orderValueInPaiseBeforeDiscount_var :=
                    toFixed2 (orderValueInPaiseBeforeDiscount_var v1)\<rparr>
      in case ObjectId (req_userId req) of
           Inl error \<Rightarrow> (Inl error, v2, d)
         | Inr uid \<Rightarrow>
             (case Order_save
                     \<lparr>order_id = orderId, userId = uid, order_status = CREATED,
                      itemsPurchased = itemsList req,
                      orderValueInPaiseAfterDiscount = orderValueInPaiseAfterDiscount_var v2,
                      orderValueInPaiseBeforeDiscount = orderValueInPaiseBeforeDiscount_var v2,
                      discountAmount = discountAmount_var v2,
                      discountCode = code\<rparr> d of
                (r, d') \<Rightarrow> (r, v2, d')))"

text \<open>
  \<open>createNewOrder\<close>. \<open>orderId\<close> is the value of \<open>new ObjectId()\<close> of line 23 and
  \<open>newCodeId\<close> the \<open>_id\<close> a discount code created in this request gets. The test of
  line 25 throws inside \<open>try\<close>, so it ends in the response of the \<open>catch\<close> block. The
  promise chain has no \<open>.catch\<close>, and \<open>try\<close> does not see a rejection: a callback that
  throws or a call that rejects skips the callbacks after it and is handled nowhere.
\<close>

definition createNewOrder :: "env \<Rightarrow> objid \<Rightarrow> objid \<Rightarrow> request \<Rightarrow> db \<Rightarrow> outcome \<times> db" where
  "createNewOrder e orderId newCodeId req d =
     (let v0 = \<lparr>orderValueInPaiseBeforeDiscount_var = 0,
                 orderValueInPaiseAfterDiscount_var = 0,
                 discountAmount_var = 0\<rparr>
      in
      if itemsList req = [] then (Responded 500 (ErrorBody NoItemsFound), d)
      else
        (case Item_aggregate (map itemId (itemsList req)) d of
           (Inl error, d1) \<Rightarrow> (Unhandled error, d1)
         | (Inr dbItemsList, d1) \<Rightarrow>
        (case thenPriceItems e (itemsList req) dbItemsList v0 d1 of
           (Inl error, v1, d2) \<Rightarrow> (Unhandled error, d2)
         | (Inr existingOrdersCount, v1, d2) \<Rightarrow>
        (case thenDecideDiscount e orderId newCodeId existingOrdersCount v1 d2 of
           (Inl error, v2, d3) \<Rightarrow> (Unhandled error, d3)
         | (Inr code, v2, d3) \<Rightarrow>
        (case thenSaveOrder req orderId code v2 d3 of
           (Inl error, v3, d4) \<Rightarrow> (Unhandled error, d4)
         | (Inr saved, v3, d4) \<Rightarrow>
        (case generateInvoice e orderId (orderValueInPaiseAfterDiscount_var v3) of
           Inl error \<Rightarrow> (Unhandled error, d4)
         | Inr invoiceId \<Rightarrow>
             (Responded 200
                (OrderCreated orderId invoiceId (orderValueInPaiseAfterDiscount_var v3)
                   (discountAmount_var v3)), d4)))))))"


section \<open>Admin aggregation (admin-controls.js)\<close>

text \<open>
  \<open>req.userIsAdmin\<close> is \<open>None\<close> when the request does not have the property. Each
  handler throws inside \<open>try\<close> when it is not truthy, and the \<open>catch\<close> block answers
  with status 500.
\<close>

fun truthy :: "bool option \<Rightarrow> bool" where
  "truthy None = False"
| "truthy (Some b) = b"

definition Item_find :: "db \<Rightarrow> (js_error + item_doc list) \<times> db" where
  "Item_find d =
     (if \<not> online d then (Inl StoreError, call ItemFind d)
      else (Inr (items d), call ItemFind d))"

definition DiscountCode_find :: "db \<Rightarrow> (js_error + code_doc list) \<times> db" where
  "DiscountCode_find d =
     (if \<not> online d then (Inl StoreError, call DiscountCodeFind d)
      else (Inr (codes d), call DiscountCodeFind d))"

definition getItemsPurchasedList :: "bool option \<Rightarrow> db \<Rightarrow> outcome \<times> db" where
  "getItemsPurchasedList userIsAdmin d =
     (if \<not> truthy userIsAdmin then (Responded 500 INTERNAL_SERVER_ERROR, d)
      else
        (case Item_find d of
           (Inl error, d') \<Rightarrow> (Responded 500 INTERNAL_SERVER_ERROR, d')
         | (Inr found, d') \<Rightarrow>
             (Responded 200
                (ItemsBody (map (\<lambda>i. (item_id i, itemName i, purchasedCount i)) found)), d')))"

definition getDiscountCodesList :: "bool option \<Rightarrow> db \<Rightarrow> outcome \<times> db" where
  "getDiscountCodesList userIsAdmin d =
     (if \<not> truthy userIsAdmin then (Responded 500 INTERNAL_SERVER_ERROR, d)
      else
        (case DiscountCode_find d of
           (Inl error, d') \<Rightarrow> (Responded 500 INTERNAL_SERVER_ERROR, d')
         | (Inr found, d') \<Rightarrow>
             (Responded 200
                (DiscountCodesBody
                   (map (\<lambda>c. (code_id c, discountPercent c, code_discountAmount c)) found)), d')))"

text \<open>
  The callbacks written for \<open>toArray\<close>, on the error or the rows of the \<open>$group\<close>
  stage (a row is its total, \<open>None\<close> when the row lacks the field).
  \<open>!result[0]?.totalPurchaseAmount\<close> holds for a missing total and for the total zero.
\<close>

definition totalPurchaseCallback :: "js_error + rat option list \<Rightarrow> outcome" where
  "totalPurchaseCallback r =
     (case r of
        Inl error \<Rightarrow> Unhandled (Wrapped error)
      | Inr [] \<Rightarrow> Unhandled (ResultMissing ''total purchase amount'')
      | Inr (None # _) \<Rightarrow> Unhandled (ResultMissing ''total purchase amount'')
      | Inr (Some amount # _) \<Rightarrow>
          if amount = 0 then Unhandled (ResultMissing ''total purchase amount'')
          else Responded 200 (TotalPurchaseAmount amount))"

definition totalDiscountCallback :: "js_error + rat option list \<Rightarrow> outcome" where
  "totalDiscountCallback r =
     (case r of
        Inl error \<Rightarrow> Unhandled (Wrapped error)
      | Inr [] \<Rightarrow> Unhandled (ResultMissing ''total discount amount'')
      | Inr (None # _) \<Rightarrow> Unhandled (ResultMissing ''total discount amount'')
      | Inr (Some amount # _) \<Rightarrow>
          if amount = 0 then Unhandled (ResultMissing ''total discount amount'')
          else Responded 200 (TotalDiscountAmount amount))"

text \<open>
  \<open>Order\<close> and \<open>DiscountCode\<close> are Mongoose models (\<open>new Order(...)\<close>, \<open>save\<close>,
  \<open>Item.aggregate(...).then\<close>). \<open>Model.aggregate(pipeline)\<close> builds an Aggregate object
  and sends nothing to the store before \<open>exec\<close> or \<open>then\<close>; an Aggregate has no
  method \<open>toArray\<close>. So \<open>aggregate([...]).toArray(callback)\<close> calls \<open>undefined\<close>: it
  throws a TypeError inside \<open>try\<close>, whatever the callback, which is never run, and the
  \<open>catch\<close> block answers with status 500.
\<close>

definition toArray :: "(js_error + rat option list \<Rightarrow> outcome) \<Rightarrow> js_error + outcome" where
  "toArray callback = Inl (TypeError ''toArray'')"

definition getTotalPurchaseAmount :: "bool option \<Rightarrow> db \<Rightarrow> outcome \<times> db" where
  "getTotalPurchaseAmount userIsAdmin d =
     (if \<not> truthy userIsAdmin then (Responded 500 INTERNAL_SERVER_ERROR, d)
      else
        (case toArray totalPurchaseCallback of
           Inl error \<Rightarrow> (Responded 500 INTERNAL_SERVER_ERROR, d)
         | Inr out \<Rightarrow> (out, d)))"

definition getTotalDiscountAmount :: "bool option \<Rightarrow> db \<Rightarrow> outcome \<times> db" where
  "getTotalDiscountAmount userIsAdmin d =
     (if \<not> truthy userIsAdmin then (Responded 500 INTERNAL_SERVER_ERROR, d)
      else
        (case toArray totalDiscountCallback of
           Inl error \<Rightarrow> (Responded 500 INTERNAL_SERVER_ERROR, d)
         | Inr out \<Rightarrow> (out, d)))"

section \<open>Concrete data\<close>

text \<open>
  An environment as the repository runs in: the period is 5, no global \<open>itemQty\<close>
  exists, and the payments controller returns an invoice. \<open>StringToNumber\<close> is given on
  the one string that is converted.
\<close>

definition env5 :: env where
  "env5 = \<lparr>NTH_ORDER_COUNT = Some ''5'',
            StringToNumber = (\<lambda>s. if s = ''5'' then Finite 5 else NaN),
            global_itemQty = None,
            generateInvoice = (\<lambda>orderId amount. Inr ''invoice'')\<rparr>"


text \<open>The same environment without the variable \<open>NTH_ORDER_COUNT\<close>.\<close>

definition envNoPeriod :: env where
  "envNoPeriod = env5\<lparr>NTH_ORDER_COUNT := None\<rparr>"

definition emptyDb :: db where
  "emptyDb = \<lparr>online = True, items = [], orders = [], codes = [], trace = []\<rparr>"

text \<open>A catalog with one item, ten pens in stock at 500 paise.\<close>

definition shop :: db where
  "shop = emptyDb\<lparr>items := [\<lparr>item_id = 1, itemName = ''Pen'', priceInPaise = 500,
                              availableQty = 10, purchasedCount = 0\<rparr>]\<rparr>"

text \<open>A registry holding one ACTIVE code of 10 percent, and two orders.\<close>

definition ledger :: db where
  "ledger = emptyDb\<lparr>
     codes := [\<lparr>code_id = 200, discountPercent = Num 10, status = ACTIVE,
               code_discountAmount = Some 100, code_orderId = None\<rparr>],
     orders := [\<lparr>order_id = 100, userId = 7, order_status = CREATED, itemsPurchased = [],
                 orderValueInPaiseAfterDiscount = 900, orderValueInPaiseBeforeDiscount = 1000,
                 discountAmount = 100, discountCode = None\<rparr>,
                \<lparr>order_id = 101, userId = 7, order_status = CREATED, itemsPurchased = [],
                 orderValueInPaiseAfterDiscount = 500, orderValueInPaiseBeforeDiscount = 500,
                 discountAmount = 0, discountCode = None\<rparr>]\<rparr>"

text \<open>
  The variables of \<open>createNewOrder\<close> when the pricing callback has run: the total before
  discount is set, the other two still have their initial value 0.
\<close>

definition priced :: "rat \<Rightarrow> locals" where
  "priced b = \<lparr>orderValueInPaiseBeforeDiscount_var = b,
               orderValueInPaiseAfterDiscount_var = 0,
               discountAmount_var = 0\<rparr>"


text \<open>
  A request for two pens whose line carries \<open>_id\<close>, the shop with four earlier orders,
  and the Order document of a fifth order for those two pens with the discount applied.
\<close>

definition twoPens :: request where
  "twoPens = \<lparr>req_userId = toString 7,
              itemsList = [\<lparr>itemId = 1, itemQty = 2, line_id = Some 1\<rparr>]\<rparr>"






section \<open>ObjectId round trip\<close>

lemma hexVal_all: "\<forall>k \<in> set [0..<16]. hexVal (hexDigits ! k) = Some k"
  by code_simp

lemma hexVal_digit: "k < 16 \<Longrightarrow> hexVal (hexDigits ! k) = Some k"
  using hexVal_all by simp

lemma fromHex_append:
  "fromHex acc (xs @ ys) = (case fromHex acc xs of None \<Rightarrow> None | Some a \<Rightarrow> fromHex a ys)"
  by (induction xs arbitrary: acc) (auto split: option.splits)

lemma fromHex_toHex: "fromHex 0 (toHex k n) = Some (n mod 16 ^ k)"
proof (induction k arbitrary: n)
  case 0
  show ?case by simp
next
  case (Suc k)
  have "16 * (n div 16 mod 16 ^ k) + n mod 16 = n mod (16 * 16 ^ k)"
    by (metis mod_mult2_eq)
  with Suc show ?case
    by (simp add: fromHex_append hexVal_digit)
qed

lemma length_toHex: "length (toHex k n) = k"
  by (induction k arbitrary: n) auto

lemma ObjectId_toString: "ObjectId (toString i) = Inr i"
proof -
  have "unat i < 2 ^ 96"
    using unsigned_less [of i] by simp
  then have "unat i < 16 ^ 24"
    by simp
  then have "fromHex 0 (toHex 24 (unat i)) = Some (unat i)"
    by (simp add: fromHex_toHex)
  then show ?thesis
    by (simp add: ObjectId_def toString_def length_toHex)
qed

section \<open>The registry: issuing and validating\<close>

lemma find_fresh_append:
  "i \<notin> f ` set xs \<Longrightarrow> find (\<lambda>c. f c = i) (xs @ [y]) = (if f y = i then Some y else None)"
  by (induction xs) auto

text \<open>When the helper resolves, the store was reachable, the id was new, and the
  document it saved is the last of the collection.\<close>

lemma helper_resolves:
  assumes "createDiscountCodeHelper newId args d = (Inr code, d')"
  shows "online d \<and> newId \<notin> code_id ` set (codes d) \<and> code = toString newId \<and>
         d' = (call DiscountCodeSave d)\<lparr>codes := codes d @
           [\<lparr>code_id = newId,
             discountPercent = (if arg args 0 = Undefined then Num 10 else arg args 0),
             status = ACTIVE, code_discountAmount = None, code_orderId = None\<rparr>]\<rparr>"
  using assms
  by (auto simp: createDiscountCodeHelper_def DiscountCode_save_def Let_def split: if_splits)

text \<open>And it does resolve whenever the store is reachable and the id is new.\<close>

lemma helper_online:
  "online d \<Longrightarrow> newId \<notin> code_id ` set (codes d) \<Longrightarrow>
   createDiscountCodeHelper newId args d =
     (Inr (toString newId),
      (call DiscountCodeSave d)\<lparr>codes := codes d @
           [\<lparr>code_id = newId,
             discountPercent = (if arg args 0 = Undefined then Num 10 else arg args 0),
             status = ACTIVE, code_discountAmount = None, code_orderId = None\<rparr>]\<rparr>)"
  by (simp add: createDiscountCodeHelper_def DiscountCode_save_def Let_def)

text \<open>A code that the ObjectId constructor accepts never makes the promise reject.\<close>

lemma validate_wellformed:
  "ObjectId code = Inr i \<Longrightarrow>
   \<exists>v. validateDiscountCode code d = (Inr v, call DiscountCodeFindOne d)"
  by (auto simp: validateDiscountCode_def DiscountCode_findOne_def split: option.splits)

text \<open>With the store unreachable the lookup fails and the code counts as invalid.\<close>

lemma validate_offline:
  "ObjectId code = Inr i \<Longrightarrow> \<not> online d \<Longrightarrow>
   validateDiscountCode code d = (Inr (Validation False None), call DiscountCodeFindOne d)"
  by (simp add: validateDiscountCode_def DiscountCode_findOne_def)

text \<open>
  C5. The claim: \<open>validateCode\<close> never raises; a code that does not exist, is malformed
  or is not ACTIVE gives \<open>{validCode: false}\<close>. For the malformed code \<open>abc\<close> the
  promise of \<open>validateDiscountCode\<close> rejects with the error of the ObjectId constructor,
  whatever the database holds, and \<open>findOne\<close> is never called.
\<close>

theorem validateDiscountCode_malformed_rejects:
  "validateDiscountCode ''abc'' d = (Inl BSONTypeError, d)"
  by (simp add: validateDiscountCode_def ObjectId_def)

text \<open>
  C7. Whenever \<open>createDiscountCodeHelper\<close>, called with the discount percent \<open>p\<close>,
  resolves with a code, \<open>validateDiscountCode\<close> on that code, run on the database the
  helper left, resolves with \<open>{validCode: true, discountPercent: p}\<close>. (An argument
  \<open>undefined\<close> is no percent: the parameter then has its default 10.)
\<close>

theorem issue_then_validate:
  assumes "createDiscountCodeHelper newId (p # rest) d = (Inr code, d')"
  shows "validateDiscountCode code d' =
           (Inr (Validation True (Some (if p = Undefined then Num 10 else p))),
            call DiscountCodeFindOne d')"
proof -
  from helper_resolves [OF assms]
  have on: "online d" and fresh: "newId \<notin> code_id ` set (codes d)"
    and code: "code = toString newId"
    and d': "d' = (call DiscountCodeSave d)\<lparr>codes := codes d @
           [\<lparr>code_id = newId,
             discountPercent = (if arg (p # rest) 0 = Undefined then Num 10 else arg (p # rest) 0),
             status = ACTIVE, code_discountAmount = None, code_orderId = None\<rparr>]\<rparr>"
    by simp_all
  have a0: "arg (p # rest) 0 = p"
    by (simp add: arg_def)
  show ?thesis
    using on fresh
    by (simp add: validateDiscountCode_def code ObjectId_toString DiscountCode_findOne_def d'
        call_def find_fresh_append a0)
qed

theorem issue_then_validate_witness:
  "createDiscountCodeHelper 200 [Num 25] emptyDb =
     (Inr (toString 200),
      (call DiscountCodeSave emptyDb)\<lparr>codes :=
         [\<lparr>code_id = 200, discountPercent = Num 25, status = ACTIVE,
           code_discountAmount = None, code_orderId = None\<rparr>]\<rparr>) \<and>
   validateDiscountCode (toString 200)
     ((call DiscountCodeSave emptyDb)\<lparr>codes :=
         [\<lparr>code_id = 200, discountPercent = Num 25, status = ACTIVE,
           code_discountAmount = None, code_orderId = None\<rparr>]\<rparr>) =
     (Inr (Validation True (Some (Num 25))),
      call DiscountCodeFindOne ((call DiscountCodeSave emptyDb)\<lparr>codes :=
         [\<lparr>code_id = 200, discountPercent = Num 25, status = ACTIVE,
           code_discountAmount = None, code_orderId = None\<rparr>]\<rparr>))"
proof -
  have h: "createDiscountCodeHelper 200 [Num 25] emptyDb =
     (Inr (toString 200),
      (call DiscountCodeSave emptyDb)\<lparr>codes :=
         [\<lparr>code_id = 200, discountPercent = Num 25, status = ACTIVE,
           code_discountAmount = None, code_orderId = None\<rparr>]\<rparr>)"
    by (simp add: createDiscountCodeHelper_def DiscountCode_save_def emptyDb_def call_def arg_def)
  from issue_then_validate [OF h] h show ?thesis
    by simp
qed

text \<open>
  C8. Validating the same code twice in a row gives the same result both times, and
  neither call changes the stored codes (so no status changes); for a stored ACTIVE code
  the result is \<open>{validCode: true}\<close> with its percent.
\<close>

theorem validate_twice:
  assumes "validateDiscountCode code d = (r1, d1)"
    and "validateDiscountCode code d1 = (r2, d2)"
  shows "r2 = r1 \<and> codes d1 = codes d \<and> codes d2 = codes d \<and>
         (\<forall>i c. ObjectId code = Inr i \<and> online d \<and>
                 find (\<lambda>c. code_id c = i) (codes d) = Some c \<and> status c = ACTIVE
            \<longrightarrow> r1 = Inr (Validation True (Some (discountPercent c))))"
  using assms
  by (auto simp: validateDiscountCode_def DiscountCode_findOne_def call_def
      split: option.splits sum.splits if_splits)

theorem validate_twice_witness:
  "validateDiscountCode (toString 200) ledger =
     (Inr (Validation True (Some (Num 10))), call DiscountCodeFindOne ledger) \<and>
   validateDiscountCode (toString 200) (call DiscountCodeFindOne ledger) =
     (Inr (Validation True (Some (Num 10))),
      call DiscountCodeFindOne (call DiscountCodeFindOne ledger)) \<and>
   codes (call DiscountCodeFindOne (call DiscountCodeFindOne ledger)) = codes ledger \<and>
   status (hd (codes ledger)) = ACTIVE"
proof -
  have h1: "validateDiscountCode (toString 200) ledger =
     (Inr (Validation True (Some (Num 10))), call DiscountCodeFindOne ledger)"
    by (simp add: validateDiscountCode_def ObjectId_toString DiscountCode_findOne_def
        ledger_def emptyDb_def call_def)
  have h2: "validateDiscountCode (toString 200) (call DiscountCodeFindOne ledger) =
     (Inr (Validation True (Some (Num 10))),
      call DiscountCodeFindOne (call DiscountCodeFindOne ledger))"
    by (simp add: validateDiscountCode_def ObjectId_toString DiscountCode_findOne_def
        ledger_def emptyDb_def call_def)
  have h3: "status (hd (codes ledger)) = ACTIVE"
    by (simp add: ledger_def emptyDb_def)
  from validate_twice [OF h1 h2] h1 h2 h3 show ?thesis
    by simp
qed

section \<open>Doubles\<close>

text \<open>
  The exponent that \<open>exponent\<close> computes is the one of the binade of its argument, so
  rounding can be evaluated from the binade: this is how the concrete products below are
  computed.
\<close>

lemma pow2_powi: "pow2 e = 2 powi e"
  by (simp add: pow2_def power_int_def inverse_eq_divide power_one_over)

lemma pow2_pos: "0 < pow2 e"
  by (simp add: pow2_powi)

lemma pow2_add: "pow2 (a + b) = pow2 a * pow2 b"
  by (simp add: pow2_powi power_int_add)

lemma pow2_mono: "a \<le> b \<Longrightarrow> pow2 a \<le> pow2 b"
  by (simp add: pow2_powi power_int_increasing)

lemma pow2_nat: "0 \<le> e \<Longrightarrow> pow2 e = 2 ^ nat e"
  by (simp add: pow2_def)

lemma exponent_bounds:
  assumes "0 < x"
  shows "pow2 (exponent x) \<le> x \<and> x < pow2 (exponent x + 1)"
proof -
  obtain p q where pq: "quotient_of x = (p, q)"
    by (cases "quotient_of x")
  have q: "0 < q"
    using pq by (rule quotient_of_denom_pos)
  have x: "x = of_int p / of_int q"
    using pq by (rule quotient_of_div)
  have p: "0 < p"
    using assms q unfolding x by (simp add: zero_less_divide_iff)
  define k where "k = bitlen p - bitlen q"
  have bp: "1 \<le> bitlen p" and bq: "1 \<le> bitlen q"
    using p q by (simp_all add: bitlen_alt_def)
  from bitlen_bounds [OF p] have "2 ^ nat (bitlen p - 1) \<le> p" and "p < 2 ^ nat (bitlen p)"
    by simp_all
  then have "(of_int (2 ^ nat (bitlen p - 1)) :: rat) \<le> of_int p"
    and "(of_int p :: rat) < of_int (2 ^ nat (bitlen p))"
    by (simp_all only: of_int_le_iff of_int_less_iff)
  then have P: "pow2 (bitlen p - 1) \<le> of_int p" "of_int p < pow2 (bitlen p)"
    using bp by (simp_all add: pow2_nat)
  from bitlen_bounds [OF q] have "2 ^ nat (bitlen q - 1) \<le> q" and "q < 2 ^ nat (bitlen q)"
    by simp_all
  then have "(of_int (2 ^ nat (bitlen q - 1)) :: rat) \<le> of_int q"
    and "(of_int q :: rat) < of_int (2 ^ nat (bitlen q))"
    by (simp_all only: of_int_le_iff of_int_less_iff)
  then have Q: "pow2 (bitlen q - 1) \<le> of_int q" "of_int q < pow2 (bitlen q)"
    using bq by (simp_all add: pow2_nat)
  have qpos: "(0::rat) < of_int q"
    using q by simp
  have up: "x < pow2 (k + 1)"
  proof -
    have "of_int p < pow2 (bitlen p)"
      by (rule P(2))
    also have "\<dots> = pow2 (k + 1) * pow2 (bitlen q - 1)"
      unfolding k_def pow2_add [symmetric] by simp
    also have "\<dots> \<le> pow2 (k + 1) * of_int q"
      using Q(1) pow2_pos [of "k + 1"] by simp
    finally show ?thesis
      unfolding x using qpos by (simp add: pos_divide_less_eq)
  qed
  have lo: "pow2 (k - 1) < x"
  proof -
    have "pow2 (k - 1) * of_int q < pow2 (k - 1) * pow2 (bitlen q)"
      using Q(2) pow2_pos [of "k - 1"] by simp
    also have "\<dots> = pow2 (bitlen p - 1)"
      unfolding k_def pow2_add [symmetric] by simp
    also have "\<dots> \<le> of_int p"
      by (rule P(1))
    finally show ?thesis
      unfolding x using qpos by (simp add: pos_less_divide_eq)
  qed
  have e: "exponent x = (if pow2 k \<le> x then k else k - 1)"
    by (simp add: exponent_def pq k_def Let_def)
  show ?thesis
  proof (cases "pow2 k \<le> x")
    case True
    with e up show ?thesis by simp
  next
    case False
    with e lo show ?thesis by simp
  qed
qed

lemma exponent_unique:
  assumes "pow2 e \<le> x" and "x < pow2 (e + 1)"
  shows "exponent x = e"
proof -
  have x: "0 < x"
    using assms(1) pow2_pos [of e] by simp
  from exponent_bounds [OF x]
  have b: "pow2 (exponent x) \<le> x" "x < pow2 (exponent x + 1)"
    by simp_all
  have "\<not> exponent x < e"
  proof
    assume "exponent x < e"
    then have "pow2 (exponent x + 1) \<le> pow2 e"
      by (intro pow2_mono) simp
    with b(2) assms(1) show False by simp
  qed
  moreover have "\<not> e < exponent x"
  proof
    assume "e < exponent x"
    then have "pow2 (e + 1) \<le> pow2 (exponent x)"
      by (intro pow2_mono) simp
    with b(1) assms(2) show False by simp
  qed
  ultimately show ?thesis by simp
qed

lemma fl_eval:
  assumes "pow2 (s + 52) \<le> x" and "x < pow2 (s + 53)"
  shows "fl x = of_int (roundHalfEven (x / pow2 s)) * pow2 s"
proof -
  have x: "0 < x"
    using assms(1) pow2_pos [of "s + 52"] by simp
  have "exponent x = s + 52"
    using assms by (intro exponent_unique) (simp_all add: add.assoc)
  with x show ?thesis
    by (simp add: fl_def Let_def)
qed

lemma roundHalfEven_int: "roundHalfEven (of_int k) = k"
  by (simp add: roundHalfEven_def)

lemma roundHalfEven_near:
  assumes "\<bar>r - of_int m\<bar> < 1 / 2"
  shows "roundHalfEven r = m"
proof (cases "of_int m \<le> r")
  case True
  have hi: "r < of_int m + 1"
    using assms by linarith
  have f: "\<lfloor>r\<rfloor> = m"
    by (rule floor_unique [OF True hi])
  have g: "r - of_int m < 1 / 2"
    using assms by linarith
  show ?thesis
    unfolding roundHalfEven_def Let_def f using g by simp
next
  case False
  have e: "(of_int (m - 1) :: rat) = of_int m - 1"
    by simp
  have lo: "of_int (m - 1) \<le> r"
    unfolding e using assms by linarith
  have hi: "r < of_int (m - 1) + 1"
    unfolding e using False by linarith
  have f: "\<lfloor>r\<rfloor> = m - 1"
    by (rule floor_unique [OF lo hi])
  have g: "\<not> r - of_int (m - 1) < 1 / 2" and g2: "1 / 2 < r - of_int (m - 1)"
    unfolding e using assms by linarith+
  show ?thesis
    unfolding roundHalfEven_def Let_def f using g g2 by simp
qed


lemma fl_int:
  assumes "\<bar>k\<bar> \<le> 2 ^ 53"
  shows "fl (of_int k) = of_int k"
proof (cases "k = 0")
  case True
  then show ?thesis by (simp add: fl_def)
next
  case False
  let ?a = "\<bar>of_int k :: rat\<bar>"
  have a: "0 < ?a"
    using False by simp
  from exponent_bounds [OF a] have lo: "pow2 (exponent ?a) \<le> ?a"
    by simp
  have "exponent ?a \<le> 53"
  proof (rule ccontr)
    assume "\<not> exponent ?a \<le> 53"
    then have "pow2 54 \<le> pow2 (exponent ?a)"
      by (intro pow2_mono) simp
    with lo have "pow2 54 \<le> ?a" by simp
    moreover have "?a \<le> 2 ^ 53"
      using assms by (metis of_int_abs of_int_le_iff of_int_numeral of_int_power)
    ultimately show False by (simp add: pow2_def)
  qed
  define s where "s = exponent ?a - 52"
  consider "s \<le> 0" | "s = 1"
    using \<open>exponent ?a \<le> 53\<close> unfolding s_def by linarith
  then have "?a / pow2 s \<in> \<int> \<and> True"
  proof cases
    case 1
    then have "pow2 s = 1 / 2 ^ nat (- s)"
      by (cases "s = 0") (simp_all add: pow2_def)
    then have "?a / pow2 s = of_int (\<bar>k\<bar> * 2 ^ nat (- s))"
      by simp
    then show ?thesis
      by (metis Ints_of_int)
  next
    case 2
    then have "exponent ?a = 53"
      unfolding s_def by simp
    with lo have "pow2 53 \<le> ?a" by simp
    then have "(2 ^ 53 :: rat) \<le> of_int \<bar>k\<bar>"
      by (simp add: pow2_def)
    then have "2 ^ 53 \<le> \<bar>k\<bar>"
      by (metis of_int_le_iff of_int_numeral of_int_power)
    with assms have "\<bar>k\<bar> = 2 ^ 53" by simp
    then have "?a / pow2 s = of_int (2 ^ 52)"
      using 2 by (simp add: pow2_def)
    then show ?thesis
      by (metis Ints_of_int)
  qed
  then obtain m where m: "?a / pow2 s = of_int m"
    by (auto elim: Ints_cases)
  then have am: "?a = of_int m * pow2 s"
    using pow2_pos [of s] by (simp add: field_simps)
  have "fl (of_int k) = sgn (of_int k) * of_int m * pow2 s"
    using False by (simp add: fl_def Let_def s_def [symmetric] m roundHalfEven_int)
  also have "\<dots> = sgn (of_int k) * ?a"
    using am by simp
  also have "\<dots> = of_int k"
    by (simp add: mult_sgn_abs)
  finally show ?thesis .
qed

lemma fl_numeral: "numeral n \<le> (2 ^ 53 :: int) \<Longrightarrow> fl (numeral n) = numeral n"
  using fl_int [of "numeral n"] by simp

text \<open>
  The double \<open>0.1\<close> is a little more than a tenth; its product with 1000 rounds to
  100, and its product with 3 to a little more than three tenths
  (\<open>0.30000000000000004\<close>).
\<close>

lemma tenth_value: "tenth = 3602879701896397 / 2 ^ 55"
proof -
  have "fl (1 / 10) = of_int (roundHalfEven ((1 / 10) / pow2 (- 56))) * pow2 (- 56)"
    by (rule fl_eval) (simp_all add: pow2_def)
  also have "roundHalfEven ((1 / 10) / pow2 (- 56)) = 7205759403792794"
    by (rule roundHalfEven_near) (simp add: pow2_def)
  finally show ?thesis
    by (simp add: tenth_def pow2_def)
qed

lemma tenth_1000: "fl (tenth * 1000) = 100"
proof -
  have "fl (tenth * 1000) = of_int (roundHalfEven ((tenth * 1000) / pow2 (- 46))) * pow2 (- 46)"
    by (rule fl_eval) (simp_all add: pow2_def tenth_value)
  also have "roundHalfEven ((tenth * 1000) / pow2 (- 46)) = 7036874417766400"
    by (rule roundHalfEven_near) (simp add: pow2_def tenth_value)
  finally show ?thesis
    by (simp add: pow2_def)
qed



section \<open>Admin aggregation\<close>

text \<open>
  C10. Each of the four admin handlers, called with \<open>req.userIsAdmin\<close> false or
  absent, answers with the error response and returns the database as it was, trace
  included: it makes no call to any collection.
\<close>

theorem admin_gate:
  assumes "userIsAdmin = None \<or> userIsAdmin = Some False"
  shows "getItemsPurchasedList userIsAdmin d = (Responded 500 INTERNAL_SERVER_ERROR, d) \<and>
         getTotalPurchaseAmount userIsAdmin d = (Responded 500 INTERNAL_SERVER_ERROR, d) \<and>
         getDiscountCodesList userIsAdmin d = (Responded 500 INTERNAL_SERVER_ERROR, d) \<and>
         getTotalDiscountAmount userIsAdmin d = (Responded 500 INTERNAL_SERVER_ERROR, d)"
  using assms
  by (auto simp: getItemsPurchasedList_def getTotalPurchaseAmount_def getDiscountCodesList_def
      getTotalDiscountAmount_def)

theorem admin_gate_witness:
  "getItemsPurchasedList None ledger = (Responded 500 INTERNAL_SERVER_ERROR, ledger) \<and>
   getTotalPurchaseAmount None ledger = (Responded 500 INTERNAL_SERVER_ERROR, ledger) \<and>
   getDiscountCodesList (Some False) ledger = (Responded 500 INTERNAL_SERVER_ERROR, ledger) \<and>
   getTotalDiscountAmount (Some False) ledger = (Responded 500 INTERNAL_SERVER_ERROR, ledger)"
  using admin_gate [of None ledger] admin_gate [of "Some False" ledger]
  by simp

text \<open>What the two callbacks would answer, were they given the rows.\<close>

lemma totalPurchaseCallback_rows:
  "totalPurchaseCallback (Inr rows) =
     (if rows = [] \<or> hd rows = None \<or> hd rows = Some 0
      then Unhandled (ResultMissing ''total purchase amount'')
      else Responded 200 (TotalPurchaseAmount (the (hd rows))))"
  by (auto simp: totalPurchaseCallback_def split: list.splits option.splits)

lemma totalDiscountCallback_rows:
  "totalDiscountCallback (Inr rows) =
     (if rows = [] \<or> hd rows = None \<or> hd rows = Some 0
      then Unhandled (ResultMissing ''total discount amount'')
      else Responded 200 (TotalDiscountAmount (the (hd rows))))"
  by (auto simp: totalDiscountCallback_def split: list.splits option.splits)

text \<open>
  They are never given any: for every caller and every database both handlers answer
  with status 500 and make no call to the store.
\<close>

lemma getTotal_always_500:
  "getTotalPurchaseAmount userIsAdmin d = (Responded 500 INTERNAL_SERVER_ERROR, d) \<and>
   getTotalDiscountAmount userIsAdmin d = (Responded 500 INTERNAL_SERVER_ERROR, d)"
  by (simp add: getTotalPurchaseAmount_def getTotalDiscountAmount_def toArray_def)

text \<open>
  C6. The claim: \<open>totalPurchaseAmount\<close> fails when the aggregate gives no row or a zero
  or missing total, and otherwise returns the sum of \<open>orderValueInPaiseAfterDiscount\<close> over
  all orders; \<open>totalDiscountAmount\<close> likewise. An admin asks for both totals of a store
  holding two orders of 900 and 500 paise and one code with a discount amount of 100: the
  sums are 1400 and 100. Both handlers answer with status 500 and the internal server
  error, and the store is not read: \<open>toArray\<close> is not a method of what \<open>aggregate\<close>
  returns.
\<close>

theorem getTotal_admin_answers_500:
  "truthy (Some True) \<and>
   sum_list (map orderValueInPaiseAfterDiscount (orders ledger)) = 1400 \<and>
   map code_discountAmount (codes ledger) = [Some 100] \<and>
   getTotalPurchaseAmount (Some True) ledger = (Responded 500 INTERNAL_SERVER_ERROR, ledger) \<and>
   getTotalDiscountAmount (Some True) ledger = (Responded 500 INTERNAL_SERVER_ERROR, ledger)"
  by (simp add: getTotalPurchaseAmount_def getTotalDiscountAmount_def toArray_def ledger_def
      emptyDb_def)

section \<open>Order creation: pricing\<close>

lemma forEachBody_unbound:
  "global_itemQty e = None \<Longrightarrow> \<exists>err. forEachBody e rows item acc = Inl err"
  by (auto simp: forEachBody_def split: option.splits)

lemma forEach_unbound:
  assumes "global_itemQty e = None" and "lines \<noteq> []"
  shows "\<exists>err. forEach e rows lines acc = (Some err, acc)"
proof (cases lines)
  case Nil
  with assms show ?thesis by simp
next
  case (Cons item rest)
  from forEachBody_unbound [OF assms(1)]
  obtain err where "forEachBody e rows item acc = Inl err"
    by blast
  with Cons show ?thesis by simp
qed

lemma thenPriceItems_unbound:
  assumes "global_itemQty e = None" and "lines \<noteq> []"
  shows "\<exists>err v'. thenPriceItems e lines rows v d = (Inl err, v', d)"
proof (cases "rows = []")
  case True
  then show ?thesis by (simp add: thenPriceItems_def)
next
  case False
  from forEach_unbound [OF assms] obtain err
    where "forEach e rows lines (orderValueInPaiseBeforeDiscount_var v) =
             (Some err, orderValueInPaiseBeforeDiscount_var v)"
    by blast
  with False show ?thesis by (simp add: thenPriceItems_def)
qed

text \<open>
  With no global \<open>itemQty\<close>, every request with a non-empty list ends in a rejection
  that nothing handles, after the one read of the catalog: no order count is read, no
  code is issued, no order is saved and no response is sent.
\<close>

lemma createNewOrder_unbound:
  assumes "global_itemQty e = None" and "itemsList req \<noteq> []"
  shows "\<exists>err. createNewOrder e orderId newCodeId req d = (Unhandled err, call ItemAggregate d)"
proof (cases "online d")
  case False
  then show ?thesis
    using assms(2) by (simp add: createNewOrder_def Item_aggregate_def)
next
  case True
  let ?rows = "filter (\<lambda>i. item_id i \<in> set (map itemId (itemsList req))) (items d)"
  let ?v0 = "\<lparr>orderValueInPaiseBeforeDiscount_var = 0, orderValueInPaiseAfterDiscount_var = 0,
              discountAmount_var = 0\<rparr>"
  from thenPriceItems_unbound [OF assms, of ?rows ?v0 "call ItemAggregate d"]
  obtain err v' where
    "thenPriceItems e (itemsList req) ?rows ?v0 (call ItemAggregate d) =
       (Inl err, v', call ItemAggregate d)"
    by blast
  with True assms(2) show ?thesis
    by (simp add: createNewOrder_def Item_aggregate_def)
qed

text \<open>
  A request of the documented shape, whose lines have no \<open>_id\<close>, finds no row for its
  first line, whatever the catalog holds.
\<close>

lemma forEach_documented_shape:
  assumes "lines \<noteq> []" and "line_id (hd lines) = None"
  shows "forEach e rows lines acc = (Some (TypeError ''priceInPaise''), acc)"
proof (cases lines)
  case Nil
  with assms show ?thesis by simp
next
  case (Cons item rest)
  with assms(2) have "find (\<lambda>dbItem. equals (item_id dbItem) (line_id item)) rows = None"
    by (simp add: find_None_iff)
  then have "forEachBody e rows item acc = Inl (TypeError ''priceInPaise'')"
    by (simp add: forEachBody_def)
  with Cons show ?thesis by simp
qed

lemma createNewOrder_documented_shape:
  assumes "itemsList req \<noteq> []" and "line_id (hd (itemsList req)) = None" and "online d"
    and "filter (\<lambda>i. item_id i \<in> set (map itemId (itemsList req))) (items d) \<noteq> []"
  shows "createNewOrder e orderId newCodeId req d =
           (Unhandled (TypeError ''priceInPaise''), call ItemAggregate d)"
  using assms forEach_documented_shape [OF assms(1,2)]
  by (simp add: createNewOrder_def Item_aggregate_def thenPriceItems_def)

text \<open>
  C1. The claim: for a non-empty list whose items are all in the catalog with enough
  stock, \<open>createNewOrder\<close> computes the total before discount as the sum of catalog price
  times requested quantity. One line asks for 2 of the 10 pens at 500 paise, so the total
  would be 1000. Sent in the documented shape, the line is looked up by its missing
  \<open>_id\<close>, no row is found, and reading \<open>priceInPaise\<close> of \<open>undefined\<close> throws. Sent
  with \<open>_id\<close> as well, the row is found and line 65 throws on the undeclared identifier
  \<open>itemQty\<close>. Either way the promise chain rejects right after the catalog read.
\<close>

theorem createNewOrder_in_stock_rejects:
  "createNewOrder env5 100 200
     \<lparr>req_userId = toString 7,
      itemsList = [\<lparr>itemId = 1, itemQty = 2, line_id = None\<rparr>]\<rparr> shop =
     (Unhandled (TypeError ''priceInPaise''), call ItemAggregate shop) \<and>
   createNewOrder env5 100 200
     \<lparr>req_userId = toString 7,
      itemsList = [\<lparr>itemId = 1, itemQty = 2, line_id = Some 1\<rparr>]\<rparr> shop =
     (Unhandled (ReferenceError ''itemQty''), call ItemAggregate shop)"
  by (simp add: createNewOrder_def Item_aggregate_def thenPriceItems_def forEachBody_def
      env5_def shop_def emptyDb_def call_def)

text \<open>
  C4. The claim: a line without a catalog row, or asking for more than \<open>availableQty\<close>,
  makes \<open>createNewOrder\<close> fail with the insufficient-stock error. Three requests against
  the ten pens: 20 pens in the documented shape; a line for an item the catalog does not
  have, followed by a good line; a good line followed by a line for 20 pens, both with
  \<open>_id\<close>. None ends in \<open>InsufficientStock\<close>. (In all three the database is left with no
  new order, as the claim says.)
\<close>

theorem createNewOrder_short_stock_other_error:
  "createNewOrder env5 100 200
     \<lparr>req_userId = toString 7,
      itemsList = [\<lparr>itemId = 1, itemQty = 20, line_id = None\<rparr>]\<rparr> shop =
     (Unhandled (TypeError ''priceInPaise''), call ItemAggregate shop) \<and>
   createNewOrder env5 100 200
     \<lparr>req_userId = toString 7,
      itemsList = [\<lparr>itemId = 2, itemQty = 1, line_id = Some 2\<rparr>,
                   \<lparr>itemId = 1, itemQty = 1, line_id = Some 1\<rparr>]\<rparr> shop =
     (Unhandled (TypeError ''priceInPaise''), call ItemAggregate shop) \<and>
   createNewOrder env5 100 200
     \<lparr>req_userId = toString 7,
      itemsList = [\<lparr>itemId = 1, itemQty = 1, line_id = Some 1\<rparr>,
                   \<lparr>itemId = 1, itemQty = 20, line_id = Some 1\<rparr>]\<rparr> shop =
     (Unhandled (ReferenceError ''itemQty''), call ItemAggregate shop) \<and>
   orders (call ItemAggregate shop) = orders shop"
  by (simp add: createNewOrder_def Item_aggregate_def thenPriceItems_def forEachBody_def
      env5_def shop_def emptyDb_def call_def)

text \<open>
  The stock check itself works when it is reached: a first line that carries \<open>_id\<close> and
  asks for more than the row has is refused with the row's quantity and name.
\<close>

lemma createNewOrder_first_line_short:
  "createNewOrder env5 100 200
     \<lparr>req_userId = toString 7,
      itemsList = [\<lparr>itemId = 1, itemQty = 20, line_id = Some 1\<rparr>]\<rparr> shop =
     (Unhandled (InsufficientStock 10 ''Pen''), call ItemAggregate shop)"
  by (simp add: createNewOrder_def Item_aggregate_def thenPriceItems_def forEachBody_def
      env5_def shop_def emptyDb_def call_def)


section \<open>Order creation: the discount decision\<close>

text \<open>For a positive integer period the test of line 77 is divisibility.\<close>

lemma jsRem_nat:
  assumes "0 < N"
  shows "jsRem (of_nat n) (Finite (of_nat N)) = Finite (of_nat (n mod N))"
proof -
  have nn: "\<not> (of_nat n / of_nat N :: rat) < 0"
    by (simp add: not_less)
  have fl: "\<lfloor>(of_nat n / of_nat N :: rat)\<rfloor> = int (n div N)"
    by (simp add: floor_divide_of_nat_eq)
  have tr: "jsTrunc (of_nat n / of_nat N) = int (n div N)"
    unfolding jsTrunc_def using nn fl by presburger
  have "(of_nat n :: rat) = of_nat (N * (n div N) + n mod N)"
    by simp
  then have "(of_nat n :: rat) - of_nat N * of_nat (n div N) = of_nat (n mod N)"
    by (simp only: of_nat_add of_nat_mult)
  with assms tr show ?thesis
    by simp
qed



lemma decide_not_eligible:
  assumes "jsRem (of_nat (n + 1)) (nthOrderCount e) \<noteq> Finite 0"
  shows "thenDecideDiscount e orderId newCodeId n v d =
           (Inr None,
            v\<lparr>orderValueInPaiseAfterDiscount_var := orderValueInPaiseBeforeDiscount_var v\<rparr>, d)"
  using assms by (simp add: thenDecideDiscount_def)

text \<open>
  What the eligible branch stores: the helper binds its one parameter to the first
  argument, the order's id, and drops the other two.
\<close>

lemma decide_eligible_online:
  assumes "jsRem (of_nat (n + 1)) (nthOrderCount e) = Finite 0"
    and "online d" and "newCodeId \<notin> code_id ` set (codes d)"
  shows "thenDecideDiscount e orderId newCodeId n v d =
           (Inr (Some (toString newCodeId)),
            v\<lparr>discountAmount_var := fl (tenth * orderValueInPaiseBeforeDiscount_var v),
              orderValueInPaiseAfterDiscount_var :=
                fl (orderValueInPaiseBeforeDiscount_var v -
                    fl (tenth * orderValueInPaiseBeforeDiscount_var v))\<rparr>,
            (call DiscountCodeSave d)\<lparr>codes := codes d @
               [\<lparr>code_id = newCodeId, discountPercent = Oid orderId, status = ACTIVE,
                 code_discountAmount = None, code_orderId = None\<rparr>]\<rparr>)"
  using assms
  by (simp add: thenDecideDiscount_def Let_def helper_online arg_def)


lemma toFixed2_hundredths: "toFixed2 (of_int m / 100) = of_int m / 100"
proof -
  have a: "\<lfloor>(of_int m :: rat) + 1 / 2\<rfloor> = m"
    by linarith
  have b: "\<lfloor>- (of_int m :: rat) + 1 / 2\<rfloor> = - m"
    by linarith
  show ?thesis
    using a b by (simp add: toFixed2_def)
qed

lemma toFixed2_int: "toFixed2 (of_int k) = of_int k"
  using toFixed2_hundredths [of "100 * k"] by simp


lemma thenPriceItems_effect:
  assumes "thenPriceItems e lines rows v d = (r, v', d')"
  shows "orders d' = orders d \<and> codes d' = codes d \<and>
         discountAmount_var v' = discountAmount_var v \<and>
         orderValueInPaiseAfterDiscount_var v' = orderValueInPaiseAfterDiscount_var v"
  using assms
  by (auto simp: thenPriceItems_def Order_countDocuments_def call_def
      split: if_splits prod.splits option.splits)


lemma thenPriceItems_resolves:
  "thenPriceItems e lines rows v d = (Inr n, v1, d2) \<Longrightarrow>
   n = length (orders d) \<and>
   v1 = v\<lparr>orderValueInPaiseBeforeDiscount_var :=
           snd (forEach e rows lines (orderValueInPaiseBeforeDiscount_var v))\<rparr> \<and>
   d2 = call OrderCountDocuments d"
  by (auto simp: thenPriceItems_def Order_countDocuments_def
      split: if_splits prod.splits option.splits)

lemma thenSaveOrder_effect:
  assumes "thenSaveOrder req orderId code v d = (r, v', d')"
  shows "codes d' = codes d \<and>
         (\<forall>ord \<in> set (orders d'). ord \<notin> set (orders d) \<longrightarrow>
            orderValueInPaiseAfterDiscount ord = toFixed2 (orderValueInPaiseAfterDiscount_var v) \<and>
            orderValueInPaiseBeforeDiscount ord = toFixed2 (orderValueInPaiseBeforeDiscount_var v) \<and>
            discountAmount ord = discountAmount_var v \<and> discountCode ord = code)"
  using assms
  by (auto simp: thenSaveOrder_def Order_save_def call_def Let_def
      split: if_splits prod.splits sum.splits)

lemma thenSaveOrder_saved:
  assumes "thenSaveOrder req orderId code v d = (Inr saved, v', d')"
  shows "saved \<in> set (orders d') \<and>
         orderValueInPaiseAfterDiscount saved = toFixed2 (orderValueInPaiseAfterDiscount_var v) \<and>
         orderValueInPaiseBeforeDiscount saved = toFixed2 (orderValueInPaiseBeforeDiscount_var v) \<and>
         discountAmount saved = discountAmount_var v \<and> discountCode saved = code"
  using assms
  by (auto simp: thenSaveOrder_def Order_save_def call_def Let_def
      split: if_splits prod.splits sum.splits)

text \<open>
  C2. The claim: for an order at a multiple of the period, the registry is asked for a
  code carrying the order's id, the percent 10 and the discount amount, and the code
  saved is ACTIVE and refers to the order. The fifth order, id 100, total 1000, on an
  empty registry: the code saved is ACTIVE, but its \<open>discountPercent\<close> is the order's id,
  and it has neither the amount 100 nor a reference to the order.
\<close>

theorem thenDecideDiscount_fifth_order_code:
  "thenDecideDiscount env5 100 200 4 (priced 1000) emptyDb =
     (Inr (Some (toString 200)),
      \<lparr>orderValueInPaiseBeforeDiscount_var = 1000,
       orderValueInPaiseAfterDiscount_var = 900,
       discountAmount_var = 100\<rparr>,
      (call DiscountCodeSave emptyDb)\<lparr>codes :=
         [\<lparr>code_id = 200, discountPercent = Oid 100, status = ACTIVE,
           code_discountAmount = None, code_orderId = None\<rparr>]\<rparr>)"
proof -
  have "nthOrderCount env5 = Finite (of_nat 5)"
    by (simp add: nthOrderCount_def env5_def)
  then have "jsRem (of_nat (4 + 1)) (nthOrderCount env5) = Finite 0"
    using jsRem_nat [of 5 5] by simp
  from decide_eligible_online [OF this, of emptyDb 200 100 "priced 1000"] show ?thesis
    by (simp add: emptyDb_def priced_def call_def tenth_1000 fl_numeral)
qed

section \<open>Order creation: a whole run\<close>


text \<open>
  When the test of line 77 fails for the number of orders the collection holds, no run
  changes the stored codes.
\<close>

lemma createNewOrder_codes_unchanged:
  assumes "jsRem (of_nat (length (orders d) + 1)) (nthOrderCount e) \<noteq> Finite 0"
  shows "codes (snd (createNewOrder e orderId newCodeId req d)) = codes d"
proof -
  let ?v0 = "\<lparr>orderValueInPaiseBeforeDiscount_var = 0, orderValueInPaiseAfterDiscount_var = 0,
              discountAmount_var = 0\<rparr>"
  obtain r1 d1 where a: "Item_aggregate (map itemId (itemsList req)) d = (r1, d1)"
    by (meson surj_pair)
  have c1: "codes d1 = codes d" and o1: "orders d1 = orders d"
    using a by (auto simp: Item_aggregate_def call_def split: if_splits)
  show ?thesis
  proof (cases "itemsList req = []")
    case True
    then show ?thesis by (simp add: createNewOrder_def)
  next
    case ne: False
    show ?thesis
    proof (cases r1)
      case (Inl err)
      with ne a c1 show ?thesis by (simp add: createNewOrder_def)
    next
      case (Inr rows)
      obtain r2 v1 d2 where p: "thenPriceItems e (itemsList req) rows ?v0 d1 = (r2, v1, d2)"
        by (metis prod_cases3)
      from thenPriceItems_effect [OF p] have c2: "codes d2 = codes d1"
        by simp
      show ?thesis
      proof (cases r2)
        case (Inl err)
        with ne a Inr p c1 c2 show ?thesis by (simp add: createNewOrder_def)
      next
        case r2: (Inr n)
        from thenPriceItems_resolves [OF p [unfolded r2]] have n: "n = length (orders d)"
          by (simp add: o1)
        have dec: "thenDecideDiscount e orderId newCodeId n v1 d2 =
           (Inr None,
            v1\<lparr>orderValueInPaiseAfterDiscount_var := orderValueInPaiseBeforeDiscount_var v1\<rparr>, d2)"
          unfolding n by (rule decide_not_eligible [OF assms])
        obtain r4 v3 d4 where s: "thenSaveOrder req orderId None
            (v1\<lparr>orderValueInPaiseAfterDiscount_var := orderValueInPaiseBeforeDiscount_var v1\<rparr>) d2
              = (r4, v3, d4)"
          by (metis prod_cases3)
        from thenSaveOrder_effect [OF s] have c4: "codes d4 = codes d2"
          by simp
        show ?thesis
          using ne a Inr p r2 s c1 c2 c4
          by (cases r4) (auto simp: createNewOrder_def dec split: sum.splits)
      qed
    qed
  qed
qed




text \<open>
  Were the global \<open>itemQty\<close> defined as 3, a request for two pens would run to the end;
  the total is then the price times that global, 1500, and not times the 2 pens the line
  asks for.
\<close>

lemma createNewOrder_global_quantity:
  "createNewOrder (env5\<lparr>global_itemQty := Some 3\<rparr>) 100 200 twoPens shop =
     (Responded 200 (OrderCreated 100 ''invoice'' 1500 0),
      (call OrderSave (call OrderCountDocuments (call ItemAggregate shop)))\<lparr>orders :=
         [\<lparr>order_id = 100, userId = 7, order_status = CREATED,
           itemsPurchased = [\<lparr>itemId = 1, itemQty = 2, line_id = Some 1\<rparr>],
           orderValueInPaiseAfterDiscount = 1500, orderValueInPaiseBeforeDiscount = 1500,
           discountAmount = 0, discountCode = None\<rparr>]\<rparr>)"
proof -
  have t: "toFixed2 1500 = 1500"
    using toFixed2_int [of 1500] by simp
  have f: "fl 1500 = 1500"
    by (simp add: fl_numeral)
  have fl5: "\<lfloor>(1 / 5 :: rat)\<rfloor> = 0"
    by (rule floor_unique) simp_all
  show ?thesis
    by (simp add: createNewOrder_def Item_aggregate_def thenPriceItems_def forEachBody_def
        Order_countDocuments_def thenDecideDiscount_def nthOrderCount_def thenSaveOrder_def
        Order_save_def ObjectId_toString env5_def twoPens_def shop_def emptyDb_def call_def t f
        jsTrunc_def Let_def fl5)
qed

section \<open>Order creation without a usable period\<close>

lemma nthOrderCount_NaN:
  assumes "NTH_ORDER_COUNT e = None \<or>
           (\<exists>s. NTH_ORDER_COUNT e = Some s \<and> StringToNumber e s = NaN)"
  shows "nthOrderCount e = NaN"
  using assms by (auto simp: nthOrderCount_def)

lemma createNewOrder_NaN_codes:
  assumes "nthOrderCount e = NaN"
  shows "codes (snd (createNewOrder e orderId newCodeId req d)) = codes d"
  using assms by (intro createNewOrder_codes_unchanged) simp

text \<open>
  C9. When \<open>NTH_ORDER_COUNT\<close> is not set, or its text converts to \<open>NaN\<close>, the test of
  line 77 fails for every order count: the callback leaves \<open>discountAmount\<close> at 0, sets
  the total after discount to the total before, resolves with \<open>undefined\<close> and does not
  touch the database; and no run of \<open>createNewOrder\<close> changes the stored codes.
\<close>

theorem no_period_no_discount:
  assumes "NTH_ORDER_COUNT e = None \<or>
           (\<exists>s. NTH_ORDER_COUNT e = Some s \<and> StringToNumber e s = NaN)"
  shows "thenDecideDiscount e orderId newCodeId n (priced b) d =
           (Inr None,
            \<lparr>orderValueInPaiseBeforeDiscount_var = b,
             orderValueInPaiseAfterDiscount_var = b,
             discountAmount_var = 0\<rparr>, d) \<and>
         codes (snd (createNewOrder e orderId newCodeId req d)) = codes d"
proof -
  have nan: "nthOrderCount e = NaN"
    by (rule nthOrderCount_NaN [OF assms])
  then have "jsRem (of_nat (n + 1)) (nthOrderCount e) \<noteq> Finite 0"
    by simp
  from decide_not_eligible [OF this, of orderId newCodeId "priced b" d]
    createNewOrder_NaN_codes [OF nan, of orderId newCodeId req d]
  show ?thesis
    by (simp add: priced_def)
qed

theorem no_period_no_discount_witness:
  "NTH_ORDER_COUNT envNoPeriod = None \<and>
   NTH_ORDER_COUNT (env5\<lparr>NTH_ORDER_COUNT := Some ''five''\<rparr>) = Some ''five'' \<and>
   StringToNumber (env5\<lparr>NTH_ORDER_COUNT := Some ''five''\<rparr>) ''five'' = NaN \<and>
   thenDecideDiscount envNoPeriod 100 200 4 (priced 1000) emptyDb =
     (Inr None,
      \<lparr>orderValueInPaiseBeforeDiscount_var = 1000,
       orderValueInPaiseAfterDiscount_var = 1000,
       discountAmount_var = 0\<rparr>, emptyDb) \<and>
   thenDecideDiscount (env5\<lparr>NTH_ORDER_COUNT := Some ''five''\<rparr>) 100 200 4 (priced 1000) emptyDb =
     (Inr None,
      \<lparr>orderValueInPaiseBeforeDiscount_var = 1000,
       orderValueInPaiseAfterDiscount_var = 1000,
       discountAmount_var = 0\<rparr>, emptyDb) \<and>
   codes (snd (createNewOrder envNoPeriod 100 200
     \<lparr>req_userId = toString 7,
      itemsList = [\<lparr>itemId = 1, itemQty = 2, line_id = Some 1\<rparr>]\<rparr> shop)) = codes shop"
proof -
  have a: "NTH_ORDER_COUNT envNoPeriod = None"
    by (simp add: envNoPeriod_def)
  have b: "NTH_ORDER_COUNT (env5\<lparr>NTH_ORDER_COUNT := Some ''five''\<rparr>) = Some ''five'' \<and>
           StringToNumber (env5\<lparr>NTH_ORDER_COUNT := Some ''five''\<rparr>) ''five'' = NaN"
    by (simp add: env5_def)
  show ?thesis
    using a b
      no_period_no_discount [of envNoPeriod 100 200 4 1000 emptyDb
        "\<lparr>req_userId = toString 7,
          itemsList = [\<lparr>itemId = 1, itemQty = 2, line_id = Some 1\<rparr>]\<rparr>"]
      no_period_no_discount [of envNoPeriod 100 200 4 1000 shop
        "\<lparr>req_userId = toString 7,
          itemsList = [\<lparr>itemId = 1, itemQty = 2, line_id = Some 1\<rparr>]\<rparr>"]
      no_period_no_discount [of "env5\<lparr>NTH_ORDER_COUNT := Some ''five''\<rparr>" 100 200 4 1000 emptyDb]
    by simp
qed


end
